theory Spec2Isabelle
  imports Main "HOL-Library.AList" "HOL-Library.Char_ord" "HOL-Library.List_Lexorder" "HOL-Library.Multiset"
begin

section \<open>Go values used by the client\<close>

text \<open>
  A Go \<^verbatim>\<open>string\<close> is a sequence of bytes; \<^typ>\<open>string\<close> is a list of 8-bit
  characters, so the two coincide. Go's \<^verbatim>\<open>int\<close> is modelled by \<^typ>\<open>int\<close>: the
  client never does arithmetic on a device identifier, it only compares it with
  \<^verbatim>\<open>allDevicesId\<close> and prints it.
\<close>

definition HOST :: string where
  "HOST = ''https://api.pushbullet.com/api''"

definition allDevicesId :: int where
  "allDevicesId = 0"

definition StatusOK :: int where
  "StatusOK = 200"

subsection \<open>The standard library: \<^verbatim>\<open>strconv.Itoa\<close>\<close>

definition digits :: string where
  "digits = ''0123456789''"

definition digit_char :: "nat \<Rightarrow> char" where
  "digit_char d = digits ! d"

fun formatNat :: "nat \<Rightarrow> string" where
  "formatNat n = (if n < 10 then [digit_char n] else formatNat (n div 10) @ [digit_char (n mod 10)])"

declare formatNat.simps [simp del]

definition Itoa :: "int \<Rightarrow> string" where
  "Itoa i = (if i < 0 then CHR ''-'' # formatNat (nat (- i)) else formatNat (nat i))"

subsection \<open>The standard library: \<^verbatim>\<open>encoding/base64\<close>\<close>

definition encodeStd :: string where
  "encodeStd = ''ABCDEFGHIJKLMNOPQRSTUVWXYZabcdefghijklmnopqrstuvwxyz0123456789+/''"

text \<open>
  \<^verbatim>\<open>(*Encoding).Encode\<close> with the standard alphabet and \<^verbatim>\<open>=\<close> padding. A group of
  three bytes is the 24-bit value \<^verbatim>\<open>val\<close>; the shifts and masks of the Go code are
  written as division and remainder by powers of two.
\<close>

fun base64_Encode :: "nat list \<Rightarrow> string" where
  "base64_Encode (a # b # c # src) =
     (let val = a * 65536 + b * 256 + c in
      [encodeStd ! (val div 262144 mod 64), encodeStd ! (val div 4096 mod 64),
       encodeStd ! (val div 64 mod 64), encodeStd ! (val mod 64)] @ base64_Encode src)"
| "base64_Encode [a, b] =
     (let val = a * 65536 + b * 256 in
      [encodeStd ! (val div 262144 mod 64), encodeStd ! (val div 4096 mod 64),
       encodeStd ! (val div 64 mod 64), CHR ''=''])"
| "base64_Encode [a] =
     (let val = a * 65536 in
      [encodeStd ! (val div 262144 mod 64), encodeStd ! (val div 4096 mod 64),
       CHR ''='', CHR ''=''])"
| "base64_Encode [] = []"

definition EncodeToString :: "string \<Rightarrow> string" where
  "EncodeToString s = base64_Encode (map of_char s)"

subsection \<open>The standard library: escaping in \<^verbatim>\<open>net/url\<close>\<close>

datatype encoding = encodePath | encodeUserPassword | encodeQueryComponent | encodeFragment

definition is_alnum :: "char \<Rightarrow> bool" where
  "is_alnum c = (let n = (of_char c :: nat) in
     (97 \<le> n \<and> n \<le> 122) \<or> (65 \<le> n \<and> n \<le> 90) \<or> (48 \<le> n \<and> n \<le> 57))"

text \<open>
  \<^verbatim>\<open>shouldEscape\<close>, for the four modes that occur when this client builds a request
  (the host and zone modes are never reached).
\<close>

definition shouldEscape :: "char \<Rightarrow> encoding \<Rightarrow> bool" where
  "shouldEscape c mode =
     (if is_alnum c then False
      else if c \<in> set ''-_.~'' then False
      else if c \<in> set ''$&+,/:;=?@'' then
        (case mode of
           encodePath \<Rightarrow> c = CHR ''?''
         | encodeUserPassword \<Rightarrow> c = CHR ''@'' \<or> c = CHR ''/'' \<or> c = CHR ''?'' \<or> c = CHR '':''
         | encodeQueryComponent \<Rightarrow> True
         | encodeFragment \<Rightarrow> False)
      else if mode = encodeFragment \<and> c \<in> set ''!()*'' then False
      else True)"

definition upperhex :: string where
  "upperhex = ''0123456789ABCDEF''"

definition escape_byte :: "encoding \<Rightarrow> char \<Rightarrow> string" where
  "escape_byte mode c =
     (if shouldEscape c mode then
        (if c = CHR '' '' \<and> mode = encodeQueryComponent then ''+''
         else [CHR ''%'', upperhex ! (of_char c div 16), upperhex ! (of_char c mod 16)])
      else [c])"

definition escape :: "string \<Rightarrow> encoding \<Rightarrow> string" where
  "escape s mode = concat (map (escape_byte mode) s)"

definition QueryEscape :: "string \<Rightarrow> string" where
  "QueryEscape s = escape s encodeQueryComponent"

definition ishex :: "char \<Rightarrow> bool" where
  "ishex c = (let n = (of_char c :: nat) in
     (48 \<le> n \<and> n \<le> 57) \<or> (97 \<le> n \<and> n \<le> 102) \<or> (65 \<le> n \<and> n \<le> 70))"

definition unhex :: "char \<Rightarrow> nat" where
  "unhex c = (let n = (of_char c :: nat) in
     if 48 \<le> n \<and> n \<le> 57 then n - 48
     else if 97 \<le> n \<and> n \<le> 102 then n - 97 + 10
     else if 65 \<le> n \<and> n \<le> 70 then n - 65 + 10
     else 0)"

text \<open>
  \<^verbatim>\<open>unescape\<close>: \<^verbatim>\<open>None\<close> is the \<^verbatim>\<open>EscapeError\<close> of a \<^verbatim>\<open>%\<close> that is not followed by two
  hexadecimal digits. Go validates the whole string before it decodes; a single pass
  that fails at the first bad escape returns the same.
\<close>

fun unescape :: "string \<Rightarrow> encoding \<Rightarrow> string option" where
  "unescape [] mode = Some []"
| "unescape (c # s) mode =
     (if c = CHR ''%'' then
        (case s of
           h1 # h2 # t \<Rightarrow>
             if ishex h1 \<and> ishex h2
             then map_option ((#) (char_of (unhex h1 * 16 + unhex h2))) (unescape t mode)
             else None
         | _ \<Rightarrow> None)
      else if c = CHR ''+'' \<and> mode = encodeQueryComponent
      then map_option ((#) CHR '' '') (unescape s mode)
      else map_option ((#) c) (unescape s mode))"

definition QueryUnescape :: "string \<Rightarrow> string option" where
  "QueryUnescape s = unescape s encodeQueryComponent"

subsection \<open>The standard library: \<^verbatim>\<open>url.Values\<close>\<close>

text \<open>
  \<^verbatim>\<open>url.Values\<close> is \<^verbatim>\<open>map[string][]string\<close>. A map value is an association list
  read through \<^const>\<open>map_of\<close>, so that its keys can be enumerated and sorted; every
  operation below depends on the list only through the map it denotes. The \<^verbatim>\<open>nil\<close>
  map is \<^const>\<open>None\<close> of \<^typ>\<open>(string \<times> string list) list option\<close>.
\<close>

type_synonym Values = "(string \<times> string list) list"

definition keys :: "Values \<Rightarrow> string list" where
  "keys v = remdups (map fst v)"

definition index :: "Values \<Rightarrow> string \<Rightarrow> string list" where
  "index v k = (case map_of v k of None \<Rightarrow> [] | Some vs \<Rightarrow> vs)"

datatype fault = NewRequestFailed | NilMapAssignment

datatype 'a outcome = Panic fault | Return 'a

text \<open>\<^verbatim>\<open>v.Set(key, value)\<close> is \<^verbatim>\<open>v[key] = []string{value}\<close>, which panics on a nil map.\<close>

definition Values_Set :: "Values option \<Rightarrow> string \<Rightarrow> string \<Rightarrow> Values option outcome" where
  "Values_Set v key val =
     (case v of
        None \<Rightarrow> Panic NilMapAssignment
      | Some m \<Rightarrow> Return (Some (AList.update key [val] m)))"

text \<open>The key/value pairs of a map, keys in increasing order, values in slice order.\<close>

definition sorted_pairs :: "Values \<Rightarrow> (string \<times> string) list" where
  "sorted_pairs v = concat (map (\<lambda>k. map (Pair k) (index v k)) (sort (keys v)))"

definition encode_pair :: "string \<times> string \<Rightarrow> string" where
  "encode_pair p = QueryEscape (fst p) @ ''='' @ QueryEscape (snd p)"

fun join_amp :: "string list \<Rightarrow> string" where
  "join_amp [] = []"
| "join_amp [s] = s"
| "join_amp (s # t # ss) = s @ ''&'' @ join_amp (t # ss)"

text \<open>
  \<^verbatim>\<open>(Values).Encode\<close>: the keys are sorted, each value of a key is written as
  \<^verbatim>\<open>QueryEscape(k) + "=" + QueryEscape(v)\<close>, and \<^verbatim>\<open>&\<close> is written before every pair but
  the first.
\<close>

definition Encode :: "Values option \<Rightarrow> string" where
  "Encode v =
     (case v of
        None \<Rightarrow> []
      | Some m \<Rightarrow> join_amp (map encode_pair (sorted_pairs m)))"

text \<open>
  \<^verbatim>\<open>strings.Cut\<close> for a one-byte separator: the text before the first separator, and
  the text after it when there is one.
\<close>

fun cut :: "char \<Rightarrow> string \<Rightarrow> string \<times> string option" where
  "cut sep [] = ([], None)"
| "cut sep (c # s) =
     (if c = sep then ([], Some s)
      else (case cut sep s of (before, after) \<Rightarrow> (c # before, after)))"

text \<open>
  \<^verbatim>\<open>url.ParseQuery\<close> is the decoder a server applies to a form body. Its loop cuts the
  query at each \<^verbatim>\<open>&\<close>, skips empty settings, cuts each setting at its first \<^verbatim>\<open>=\<close> and
  unescapes both halves. The pairs are listed in the order of the body, which is the
  order in which Go appends them to the slices of the resulting map; \<^const>\<open>None\<close>
  stands for a non-nil error.
\<close>

fun split_fields :: "char \<Rightarrow> string \<Rightarrow> string list" where
  "split_fields sep [] = [[]]"
| "split_fields sep (c # s) =
     (if c = sep then [] # split_fields sep s
      else (case split_fields sep s of
              [] \<Rightarrow> [[c]]
            | seg # segs \<Rightarrow> (c # seg) # segs))"

definition parse_pair :: "string \<Rightarrow> (string \<times> string) option" where
  "parse_pair seg =
     (case cut CHR ''='' seg of
        (key, val) \<Rightarrow>
          (case QueryUnescape key of
             None \<Rightarrow> None
           | Some k \<Rightarrow>
               (case QueryUnescape (case val of None \<Rightarrow> [] | Some v \<Rightarrow> v) of
                  None \<Rightarrow> None
                | Some v \<Rightarrow> Some (k, v))))"

fun parse_segments :: "string list \<Rightarrow> (string \<times> string) list option" where
  "parse_segments [] = Some []"
| "parse_segments (seg # segs) =
     (if CHR '';'' \<in> set seg then None
      else if seg = [] then parse_segments segs
      else (case parse_pair seg of
              None \<Rightarrow> None
            | Some p \<Rightarrow> map_option ((#) p) (parse_segments segs)))"

definition ParseQuery :: "string \<Rightarrow> (string \<times> string) list option" where
  "ParseQuery query = parse_segments (split_fields CHR ''&'' query)"

text \<open>The key/value pairs of a map in the order of its keys: its multiset of pairs.\<close>

definition form_pairs :: "Values \<Rightarrow> (string \<times> string) list" where
  "form_pairs v = concat (map (\<lambda>k. map (Pair k) (index v k)) (keys v))"

subsection \<open>The standard library: \<^verbatim>\<open>http.NewRequest\<close>\<close>

record Request =
  Method :: string
  URL :: string
  Header :: "(string \<times> string list) list"
  Body :: "string option"

record Response =
  StatusCode :: int
  Status :: string
  RespBody :: string

definition Header_Set :: "string \<Rightarrow> string \<Rightarrow> Request \<Rightarrow> Request" where
  "Header_Set key val r = r\<lparr>Header := AList.update key [val] (Header r)\<rparr>"

definition Header_Get :: "string \<Rightarrow> Request \<Rightarrow> string" where
  "Header_Get key r = (case map_of (Header r) key of Some (v # vs) \<Rightarrow> v | _ \<Rightarrow> [])"

definition stringContainsCTLByte :: "string \<Rightarrow> bool" where
  "stringContainsCTLByte s = list_ex (\<lambda>c. (of_char c :: nat) < 32 \<or> (of_char c :: nat) = 127) s"

text \<open>
  \<^verbatim>\<open>validEncoded\<close>: whether a path or fragment, as written, is an encoding that
  \<^verbatim>\<open>(*URL).String\<close> keeps.
\<close>

definition validEncoded :: "string \<Rightarrow> encoding \<Rightarrow> bool" where
  "validEncoded s mode =
     list_all (\<lambda>c. c \<in> set ''!$&()*+,;=:@[]%'' \<or> c = CHR 0x27 \<or> \<not> shouldEscape c mode) s"

text \<open>
  \<^verbatim>\<open>setPath\<close> followed by \<^verbatim>\<open>EscapedPath\<close>, and \<^verbatim>\<open>setFragment\<close> followed by
  \<^verbatim>\<open>EscapedFragment\<close>: the text is decoded; it reads back as written when it is the
  default escaping of what it decodes to or a valid encoding, and as the default escaping
  otherwise. \<^const>\<open>None\<close> is the \<^verbatim>\<open>EscapeError\<close>.
\<close>

definition escaped_text :: "string \<Rightarrow> encoding \<Rightarrow> string option" where
  "escaped_text p mode =
     (case unescape p mode of
        None \<Rightarrow> None
      | Some decoded \<Rightarrow>
          Some (if escape decoded mode = p \<or> validEncoded p mode then p
                else escape decoded mode))"

text \<open>
  \<^verbatim>\<open>url.Parse(rawurl)\<close>, with the URL it returns given as \<^verbatim>\<open>(*URL).String\<close> reads it back;
  \<^const>\<open>None\<close> is a parse error. The client only passes \<^verbatim>\<open>HOST + endpoint\<close>. The scheme
  and authority of \<^const>\<open>HOST\<close> always parse and hold no byte that escaping or decoding
  changes, so they are carried through the treatment of the path with it. What can fail
  is a control byte before the fragment, or a malformed \<^verbatim>\<open>%\<close> escape in the path (the
  text before the first \<^verbatim>\<open>?\<close>) or in the fragment (the text after the first \<^verbatim>\<open>#\<close>). The
  query reads back as written, and an empty fragment is dropped.
\<close>

definition url_Parse :: "string \<Rightarrow> string option" where
  "url_Parse rawurl =
     (case cut CHR ''#'' rawurl of
        (u, frag) \<Rightarrow>
          if stringContainsCTLByte u then None
          else
            (case cut CHR ''?'' u of
               (rest, query) \<Rightarrow>
                 (case escaped_text rest encodePath of
                    None \<Rightarrow> None
                  | Some path \<Rightarrow>
                      (case (case frag of
                               None \<Rightarrow> Some []
                             | Some f \<Rightarrow>
                                 if f = [] then Some []
                                 else map_option ((#) CHR ''#'') (escaped_text f encodeFragment)) of
                         None \<Rightarrow> None
                       | Some fragment \<Rightarrow>
                           Some (path @ (case query of None \<Rightarrow> [] | Some q \<Rightarrow> CHR ''?'' # q)
                                 @ fragment)))))"

text \<open>
  \<^verbatim>\<open>http.NewRequest(method, rawurl, nil)\<close> fails exactly when \<^verbatim>\<open>url.Parse(rawurl)\<close> does.
  The field \<^const>\<open>URL\<close> of the request holds the parsed URL as it reads back.
\<close>

definition NewRequest :: "string \<Rightarrow> string \<Rightarrow> Request option" where
  "NewRequest method rawurl =
     (case url_Parse rawurl of
        None \<Rightarrow> None
      | Some u \<Rightarrow> Some \<lparr>Method = method, URL = u, Header = [], Body = None\<rparr>)"

section \<open>The client\<close>

datatype error = TransportError string | ErrorString string | DecodeError string

text \<open>
  \<^verbatim>\<open>c.Client.Do\<close> is the transport: it answers a request with an error or a response.
  The requests handed to it are recorded in a log, the state every operation threads.
\<close>

record Client =
  Key :: string
  Client :: "Request \<Rightarrow> error + Response"

text \<open>\<^verbatim>\<open>New\<close> takes the process-wide \<^verbatim>\<open>http.DefaultClient\<close>, here its second argument.\<close>

definition New :: "string \<Rightarrow> (Request \<Rightarrow> error + Response) \<Rightarrow> Client" where
  "New apikey DefaultClient = \<lparr>Key = apikey, Client = DefaultClient\<rparr>"

definition NewWithClient :: "string \<Rightarrow> (Request \<Rightarrow> error + Response) \<Rightarrow> Client" where
  "NewWithClient apikey client = \<lparr>Key = apikey, Client = client\<rparr>"

record DeviceExtras =
  Manufacturer :: string
  Model :: string
  AndroidVersion :: string
  SdkVersion :: string
  AppVersion :: int
  Nickname :: string

record Device =
  Id :: int
  OwnerName :: string
  Extras :: DeviceExtras

text \<open>A \<^verbatim>\<open>[]*Device\<close> is a list of pointers, each of which may be nil.\<close>

record deviceResponse =
  Devices_field :: "Device option list"
  SharedDevices :: "Device option list"

definition Userinfo_String :: "string \<Rightarrow> string \<Rightarrow> string" where
  "Userinfo_String username password =
     escape username encodeUserPassword @ '':'' @ escape password encodeUserPassword"

definition buildRequest :: "Client \<Rightarrow> string \<Rightarrow> Values option \<Rightarrow> Request outcome" where
  "buildRequest c endpoint data =
     (case NewRequest ''GET'' (HOST @ endpoint) of
        None \<Rightarrow> Panic NewRequestFailed
      | Some r0 \<Rightarrow>
          (let u = Userinfo_String (Key c) [];
               r = Header_Set ''Authorization'' (''Basic '' @ EncodeToString u) r0
           in if data \<noteq> None
              then Return ((Header_Set ''Content-Type'' ''application/x-www-form-urlencoded''
                             (r\<lparr>Method := ''POST''\<rparr>))\<lparr>Body := Some (Encode data)\<rparr>)
              else Return r))"

definition Do :: "Client \<Rightarrow> Request \<Rightarrow> Request list \<Rightarrow> (error + Response) \<times> Request list" where
  "Do c req log = (Client c req, log @ [req])"

text \<open>
  \<^verbatim>\<open>Devices\<close> returns the pair \<^verbatim>\<open>([]*Device, error)\<close>. The JSON decoder is the standard
  library's and is a parameter: it fills a \<^verbatim>\<open>deviceResponse\<close> (possibly in part) and
  may report an error. Closing the response body, which is deferred, changes nothing that
  is returned and is left out.
\<close>

definition Devices ::
  "(string \<Rightarrow> deviceResponse \<times> error option) \<Rightarrow> Client \<Rightarrow> Request list
     \<Rightarrow> (Device option list \<times> error option) outcome \<times> Request list" where
  "Devices Decode c log =
     (case buildRequest c ''/devices'' None of
        Panic f \<Rightarrow> (Panic f, log)
      | Return req \<Rightarrow>
          (case Do c req log of
             (Inl err, log') \<Rightarrow> (Return ([], Some err), log')
           | (Inr resp, log') \<Rightarrow>
               if StatusCode resp \<noteq> StatusOK
               then (Return ([], Some (ErrorString (Status resp))), log')
               else (case Decode (RespBody resp) of
                       (devResp, Some err) \<Rightarrow> (Return ([], Some err), log')
                     | (devResp, None) \<Rightarrow>
                         (Return (Devices_field devResp @ SharedDevices devResp, None), log'))))"

text \<open>
  \<^verbatim>\<open>Push\<close> returns an \<^verbatim>\<open>error\<close>; the map it was given is shared with the caller, so the
  map as the caller finds it afterwards is returned with it.
\<close>

definition Push ::
  "Client \<Rightarrow> int \<Rightarrow> Values option \<Rightarrow> Request list
     \<Rightarrow> error option outcome \<times> Values option \<times> Request list" where
  "Push c deviceId data log =
     (case (if deviceId \<noteq> allDevicesId then Values_Set data ''device_id'' (Itoa deviceId)
            else Return data) of
        Panic f \<Rightarrow> (Panic f, data, log)
      | Return data' \<Rightarrow>
          (case buildRequest c ''/pushes'' data' of
             Panic f \<Rightarrow> (Panic f, data', log)
           | Return req \<Rightarrow>
               (case Do c req log of
                  (Inl err, log') \<Rightarrow> (Return (Some err), data', log')
                | (Inr resp, log') \<Rightarrow>
                    if StatusCode resp \<noteq> StatusOK
                    then (Return (Some (ErrorString (Status resp))), data', log')
                    else (Return None, data', log'))))"

definition PushToAll ::
  "Client \<Rightarrow> Values option \<Rightarrow> Request list \<Rightarrow> error option outcome \<times> Values option \<times> Request list" where
  "PushToAll c data log = Push c allDevicesId data log"

text \<open>
  The typed variants build a fresh map, which no caller sees: they return the error and
  the log.
\<close>

definition drop_data :: "'a \<times> Values option \<times> 'b \<Rightarrow> 'a \<times> 'b" where
  "drop_data r = (fst r, snd (snd r))"

definition PushNote :: "Client \<Rightarrow> int \<Rightarrow> string \<Rightarrow> string \<Rightarrow> Request list
     \<Rightarrow> error option outcome \<times> Request list" where
  "PushNote c deviceId title body log =
     (let data = Some [(''type'', [''note'']), (''title'', [title]), (''body'', [body])]
      in drop_data (Push c deviceId data log))"

definition PushNoteToAll :: "Client \<Rightarrow> string \<Rightarrow> string \<Rightarrow> Request list
     \<Rightarrow> error option outcome \<times> Request list" where
  "PushNoteToAll c title body log = PushNote c allDevicesId title body log"

definition PushAddress :: "Client \<Rightarrow> int \<Rightarrow> string \<Rightarrow> string \<Rightarrow> Request list
     \<Rightarrow> error option outcome \<times> Request list" where
  "PushAddress c deviceId name address log =
     (let data = Some [(''type'', [''address'']), (''name'', [name]), (''address'', [address])]
      in drop_data (Push c deviceId data log))"

definition PushAddressToAll :: "Client \<Rightarrow> string \<Rightarrow> string \<Rightarrow> Request list
     \<Rightarrow> error option outcome \<times> Request list" where
  "PushAddressToAll c name address log = PushAddress c allDevicesId name address log"

definition PushList :: "Client \<Rightarrow> int \<Rightarrow> string \<Rightarrow> string list \<Rightarrow> Request list
     \<Rightarrow> error option outcome \<times> Request list" where
  "PushList c deviceId title items log =
     (let data = Some [(''type'', [''list'']), (''title'', [title]), (''items'', items)]
      in drop_data (Push c deviceId data log))"

definition PushListToAll :: "Client \<Rightarrow> string \<Rightarrow> string list \<Rightarrow> Request list
     \<Rightarrow> error option outcome \<times> Request list" where
  "PushListToAll c title item log = PushList c allDevicesId title item log"

definition PushLink :: "Client \<Rightarrow> int \<Rightarrow> string \<Rightarrow> string \<Rightarrow> Request list
     \<Rightarrow> error option outcome \<times> Request list" where
  "PushLink c deviceId title u log =
     (let data = Some [(''type'', [''link'']), (''title'', [title]), (''url'', [u])]
      in drop_data (Push c deviceId data log))"

definition PushLinkToAll :: "Client \<Rightarrow> string \<Rightarrow> string \<Rightarrow> Request list
     \<Rightarrow> error option outcome \<times> Request list" where
  "PushLinkToAll c title u log = PushLink c allDevicesId title u log"

section \<open>Requests and sample environments used in the statements\<close>

text \<open>The two shapes of request that \<^const>\<open>buildRequest\<close> returns.\<close>

definition authorization :: "Client \<Rightarrow> string" where
  "authorization c = ''Basic '' @ EncodeToString (Userinfo_String (Key c) [])"

definition GET_request :: "Client \<Rightarrow> string \<Rightarrow> Request" where
  "GET_request c endpoint =
     \<lparr>Method = ''GET'', URL = HOST @ endpoint,
      Header = [(''Authorization'', [authorization c])], Body = None\<rparr>"

definition POST_request :: "Client \<Rightarrow> string \<Rightarrow> Values \<Rightarrow> Request" where
  "POST_request c endpoint m =
     \<lparr>Method = ''POST'', URL = HOST @ endpoint,
      Header = [(''Authorization'', [authorization c]),
                (''Content-Type'', [''application/x-www-form-urlencoded''])],
      Body = Some (Encode (Some m))\<rparr>"

text \<open>What \<^verbatim>\<open>Push\<close> and \<^verbatim>\<open>Devices\<close> make of the transport's answer.\<close>

definition status_error :: "error + Response \<Rightarrow> error option" where
  "status_error a =
     (case a of
        Inl err \<Rightarrow> Some err
      | Inr resp \<Rightarrow>
          if StatusCode resp \<noteq> StatusOK then Some (ErrorString (Status resp)) else None)"

text \<open>
  Sample transports: one that answers every request with a fixed status line and body,
  and one that fails to connect. A sample decoder that knows two bodies and rejects
  every other text.
\<close>

definition respond :: "int \<Rightarrow> string \<Rightarrow> string \<Rightarrow> Request \<Rightarrow> error + Response" where
  "respond code line body req = Inr \<lparr>StatusCode = code, Status = line, RespBody = body\<rparr>"

definition refuse :: "Request \<Rightarrow> error + Response" where
  "refuse req = Inl (TransportError ''connection refused'')"

definition device_with_id :: "int \<Rightarrow> Device" where
  "device_with_id n =
     \<lparr>Id = n, OwnerName = [],
      Extras = \<lparr>Manufacturer = [], Model = [], AndroidVersion = [], SdkVersion = [],
                AppVersion = 0, Nickname = []\<rparr>\<rparr>"

definition sample_Decode :: "string \<Rightarrow> deviceResponse \<times> error option" where
  "sample_Decode body =
     (if body = ''{\"devices\":[{\"id\":1}],\"shared_devices\":[{\"id\":2}]}''
      then (\<lparr>Devices_field = [Some (device_with_id 1)],
             SharedDevices = [Some (device_with_id 2)]\<rparr>, None)
      else if body = ''{\"devices\":[],\"shared_devices\":[]}''
      then (\<lparr>Devices_field = [], SharedDevices = []\<rparr>, None)
      else (\<lparr>Devices_field = [], SharedDevices = []\<rparr>,
            Some (DecodeError ''invalid character'')))"

section \<open>Escaping and decoding a form body\<close>

lemma lt16_cases:
  "k < (16::nat) \<Longrightarrow> k = 0 \<or> k = 1 \<or> k = 2 \<or> k = 3 \<or> k = 4 \<or> k = 5 \<or> k = 6 \<or> k = 7
     \<or> k = 8 \<or> k = 9 \<or> k = 10 \<or> k = 11 \<or> k = 12 \<or> k = 13 \<or> k = 14 \<or> k = 15"
  by presburger

lemma byte_nibbles: "(of_char c :: nat) div 16 < 16" "(of_char c :: nat) mod 16 < 16"
proof -
  have "(of_char c :: nat) < 16 * 16" using nat_of_char_less_256 [of c] by simp
  then show "(of_char c :: nat) div 16 < 16" by (rule less_mult_imp_div_less)
  show "(of_char c :: nat) mod 16 < 16" by simp
qed

lemma upperhex_nth:
  assumes "k < 16"
  shows "ishex (upperhex ! k)" and "unhex (upperhex ! k) = k"
    and "upperhex ! k \<noteq> CHR ''&''" and "upperhex ! k \<noteq> CHR ''=''" and "upperhex ! k \<noteq> CHR '';''"
  using lt16_cases [OF assms]
  by (elim disjE; simp add: upperhex_def ishex_def unhex_def)+

lemma not_shouldEscape_query:
  "\<not> shouldEscape c encodeQueryComponent \<Longrightarrow> c \<notin> set ''%+&=;''"
  by (auto simp: shouldEscape_def is_alnum_def split: if_splits)

lemma unescape_escape_byte:
  "unescape (escape_byte encodeQueryComponent c @ t) encodeQueryComponent
     = map_option ((#) c) (unescape t encodeQueryComponent)"
proof (cases "shouldEscape c encodeQueryComponent")
  case False
  with not_shouldEscape_query [OF False] show ?thesis
    by (simp add: escape_byte_def)
next
  case True
  show ?thesis
  proof (cases "c = CHR '' ''")
    case True
    with \<open>shouldEscape c encodeQueryComponent\<close> show ?thesis
      by (simp add: escape_byte_def)
  next
    case False
    note d = byte_nibbles(1) [of c] and m = byte_nibbles(2) [of c]
    have "char_of ((of_char c :: nat) div 16 * 16 + of_char c mod 16) = c"
      by simp
    with False True upperhex_nth(1,2) [OF d] upperhex_nth(1,2) [OF m] show ?thesis
      by (simp add: escape_byte_def)
  qed
qed

lemma unescape_escape:
  "unescape (escape s encodeQueryComponent) encodeQueryComponent = Some s"
  by (induction s) (simp_all add: escape_def unescape_escape_byte)

lemma QueryUnescape_QueryEscape: "QueryUnescape (QueryEscape s) = Some s"
  by (simp add: QueryUnescape_def QueryEscape_def unescape_escape)

lemma escape_byte_no_separator:
  assumes "x \<in> set (escape_byte encodeQueryComponent c)"
  shows "x \<noteq> CHR ''&'' \<and> x \<noteq> CHR ''='' \<and> x \<noteq> CHR '';''"
proof (cases "shouldEscape c encodeQueryComponent")
  case False
  with assms not_shouldEscape_query [OF False] show ?thesis
    by (auto simp: escape_byte_def)
next
  case True
  note d = byte_nibbles(1) [of c] and m = byte_nibbles(2) [of c]
  from assms True upperhex_nth(3,4,5) [OF d] upperhex_nth(3,4,5) [OF m] show ?thesis
    by (auto simp: escape_byte_def split: if_splits)
qed

lemma QueryEscape_no_separator:
  "x \<in> set (QueryEscape s) \<Longrightarrow> x \<noteq> CHR ''&'' \<and> x \<noteq> CHR ''='' \<and> x \<noteq> CHR '';''"
  unfolding QueryEscape_def escape_def
  using escape_byte_no_separator by auto

lemma cut_absent: "sep \<notin> set a \<Longrightarrow> cut sep a = (a, None)"
  by (induction a) auto

lemma cut_present: "sep \<notin> set a \<Longrightarrow> cut sep (a @ sep # b) = (a, Some b)"
  by (induction a) auto

lemma split_fields_absent: "sep \<notin> set a \<Longrightarrow> split_fields sep a = [a]"
  by (induction a) auto

lemma split_fields_present:
  "sep \<notin> set a \<Longrightarrow> split_fields sep (a @ sep # b) = a # split_fields sep b"
  by (induction a) auto

lemma parse_pair_encode_pair: "parse_pair (encode_pair p) = Some p"
proof -
  have "CHR ''='' \<notin> set (QueryEscape (fst p))"
    using QueryEscape_no_separator by blast
  then have "cut CHR ''='' (encode_pair p) = (QueryEscape (fst p), Some (QueryEscape (snd p)))"
    by (simp add: encode_pair_def cut_present)
  then show ?thesis
    by (simp add: parse_pair_def QueryUnescape_QueryEscape)
qed

lemma encode_pair_chars:
  "encode_pair p \<noteq> []" "CHR '';'' \<notin> set (encode_pair p)" "CHR ''&'' \<notin> set (encode_pair p)"
  using QueryEscape_no_separator [of _ "fst p"] QueryEscape_no_separator [of _ "snd p"]
  by (auto simp: encode_pair_def)

lemma parse_segments_encode: "parse_segments (map encode_pair ps) = Some ps"
  by (induction ps) (simp_all add: encode_pair_chars parse_pair_encode_pair)

lemma split_fields_join_amp:
  "ss \<noteq> [] \<Longrightarrow> \<forall>s \<in> set ss. CHR ''&'' \<notin> set s \<Longrightarrow> split_fields CHR ''&'' (join_amp ss) = ss"
proof (induction ss rule: join_amp.induct)
  case 1
  then show ?case by simp
next
  case (2 s)
  then show ?case by (simp add: split_fields_absent)
next
  case (3 s t ss)
  then show ?case by (simp add: split_fields_present)
qed

lemma ParseQuery_join: "ParseQuery (join_amp (map encode_pair ps)) = Some ps"
proof (cases ps)
  case Nil
  then show ?thesis by (simp add: ParseQuery_def)
next
  case (Cons p qs)
  then have "split_fields CHR ''&'' (join_amp (map encode_pair ps)) = map encode_pair ps"
    by (intro split_fields_join_amp) (auto simp: encode_pair_chars)
  then show ?thesis
    by (simp add: ParseQuery_def parse_segments_encode)
qed

lemma ParseQuery_Encode: "ParseQuery (Encode (Some m)) = Some (sorted_pairs m)"
  by (simp add: Encode_def ParseQuery_join)

lemma mset_concat_map_cong:
  "mset xs = mset ys \<Longrightarrow> mset (concat (map f xs)) = mset (concat (map f ys))"
proof -
  have "mset (concat (map f zs)) = (\<Sum>x\<in>#mset zs. mset (f x))" for zs
    by (induction zs) simp_all
  then show "mset xs = mset ys \<Longrightarrow> ?thesis" by simp
qed

lemma mset_sorted_pairs: "mset (sorted_pairs m) = mset (form_pairs m)"
  unfolding sorted_pairs_def form_pairs_def
  by (rule mset_concat_map_cong) simp

section \<open>What the operations compute\<close>

lemma url_Parse_endpoints:
  "url_Parse (HOST @ ''/devices'') = Some (HOST @ ''/devices'')"
  "url_Parse (HOST @ ''/pushes'') = Some (HOST @ ''/pushes'')"
  by (simp_all add: url_Parse_def HOST_def stringContainsCTLByte_def escaped_text_def
      escape_def escape_byte_def shouldEscape_def is_alnum_def)

lemma buildRequest_Return:
  assumes "url_Parse (HOST @ endpoint) = Some (HOST @ endpoint)"
  shows "buildRequest c endpoint None = Return (GET_request c endpoint)"
    and "buildRequest c endpoint (Some m) = Return (POST_request c endpoint m)"
  using assms
  by (simp_all add: buildRequest_def NewRequest_def Header_Set_def GET_request_def
      POST_request_def authorization_def)

lemma buildRequest_Panic:
  "url_Parse (HOST @ endpoint) = None \<Longrightarrow> buildRequest c endpoint data = Panic NewRequestFailed"
  by (simp add: buildRequest_def NewRequest_def)

lemma Push_Some:
  "Push c deviceId (Some m) log =
     (let m' = (if deviceId \<noteq> 0 then AList.update ''device_id'' [Itoa deviceId] m else m);
          req = POST_request c ''/pushes'' m'
      in (Return (status_error (Client c req)), Some m', log @ [req]))"
  by (simp add: Push_def Values_Set_def allDevicesId_def Do_def status_error_def
      buildRequest_Return(2) [OF url_Parse_endpoints(2)] Let_def split: sum.splits)

lemma Push_None_all:
  "Push c 0 None log =
     (Return (status_error (Client c (GET_request c ''/pushes''))), None,
      log @ [GET_request c ''/pushes''])"
  by (simp add: Push_def allDevicesId_def Do_def status_error_def
      buildRequest_Return(1) [OF url_Parse_endpoints(2)] split: sum.splits)

lemma Push_None_device:
  "deviceId \<noteq> 0 \<Longrightarrow> Push c deviceId None log = (Panic NilMapAssignment, None, log)"
  by (simp add: Push_def Values_Set_def allDevicesId_def)

lemma Devices_eq:
  "Devices Decode c log =
     (let req = GET_request c ''/devices'' in
      (case Client c req of
         Inl err \<Rightarrow> Return ([], Some err)
       | Inr resp \<Rightarrow>
           if StatusCode resp \<noteq> StatusOK then Return ([], Some (ErrorString (Status resp)))
           else (case Decode (RespBody resp) of
                   (devResp, Some err) \<Rightarrow> Return ([], Some err)
                 | (devResp, None) \<Rightarrow>
                     Return (Devices_field devResp @ SharedDevices devResp, None)),
       log @ [req]))"
  by (simp add: Devices_def Do_def buildRequest_Return(1) [OF url_Parse_endpoints(1)]
      Let_def split: sum.splits prod.splits option.splits)

lemma index_update:
  "index (AList.update k vs m) k' = (if k' = k then vs else index m k')"
  by (simp add: index_def update_conv')

lemma keys_distinct: "distinct (keys m)"
  by (simp add: keys_def)

lemma index_not_key: "k \<notin> set (keys m) \<Longrightarrow> index m k = []"
  by (auto simp: keys_def index_def split: option.splits dest: map_of_SomeD intro: rev_image_eqI)

lemma filter_concat_key:
  "distinct ks \<Longrightarrow>
   filter (\<lambda>p. fst p = k) (concat (map (\<lambda>x. map (Pair x) (f x)) ks))
     = (if k \<in> set ks then map (Pair k) (f k) else [])"
proof (induction ks)
  case Nil
  then show ?case by simp
next
  case (Cons a ks)
  have "filter (\<lambda>p. fst p = k) (map (Pair a) (f a)) = (if a = k then map (Pair a) (f a) else [])"
    by (induction "f a") (auto simp: filter_empty_conv)
  with Cons show ?case by auto
qed

lemma filter_sorted_pairs:
  "filter (\<lambda>p. fst p = k) (sorted_pairs m) = map (Pair k) (index m k)"
  unfolding sorted_pairs_def
  by (simp add: filter_concat_key keys_distinct index_not_key)

lemma sorted_pairs_list:
  "sorted_pairs [(''type'', [''list'']), (''title'', [title]), (''items'', items)]
     = map (Pair ''items'') items @ [(''title'', title), (''type'', ''list'')]"
  by (simp add: sorted_pairs_def keys_def index_def)

lemma sorted_pairs_list_device:
  "sorted_pairs (AList.update ''device_id'' [v]
       [(''type'', [''list'']), (''title'', [title]), (''items'', items)])
     = (''device_id'', v) # map (Pair ''items'') items @ [(''title'', title), (''type'', ''list'')]"
  by (simp add: sorted_pairs_def keys_def index_def)

lemma Header_Get_requests:
  "Header_Get ''Authorization'' (GET_request c endpoint) = authorization c"
  "Header_Get ''Authorization'' (POST_request c endpoint m) = authorization c"
  "Header_Get ''Content-Type'' (POST_request c endpoint m) = ''application/x-www-form-urlencoded''"
  by (simp_all add: Header_Get_def GET_request_def POST_request_def)

section \<open>The claims\<close>

subsection \<open>C1: the Authorization header\<close>

text \<open>
  C1 asks, for every API key \<^verbatim>\<open>k\<close>, for the header \<^verbatim>\<open>"Basic " + base64(k + ":")\<close>. The
  code does not give it for the key \<^verbatim>\<open>a@b\<close>: the client made by \<^verbatim>\<open>New("a@b")\<close> builds,
  for the endpoint \<^verbatim>\<open>/devices\<close> and no payload, a request whose \<^verbatim>\<open>Authorization\<close> header
  is \<^verbatim>\<open>Basic YSU0MGI6\<close>, the base64 of \<^verbatim>\<open>a%40b:\<close>, where the claim asks for
  \<^verbatim>\<open>Basic YUBiOg==\<close>, the base64 of \<^verbatim>\<open>a@b:\<close>. The key is written through
  \<^verbatim>\<open>url.UserPassword(k, "").String()\<close>, which escapes it as URL user information before
  it is encoded.
\<close>

theorem C1_authorization_escaped:
  "buildRequest (New ''a@b'' refuse) ''/devices'' None
     = Return \<lparr>Method = ''GET'', URL = ''https://api.pushbullet.com/api/devices'',
               Header = [(''Authorization'', [''Basic YSU0MGI6''])], Body = None\<rparr>
   \<and> Userinfo_String ''a@b'' [] = ''a%40b:''
   \<and> ''Basic '' @ EncodeToString (''a@b'' @ '':'') = ''Basic YUBiOg==''"
  by (simp add: buildRequest_Return(1) [OF url_Parse_endpoints(1)] GET_request_def
      authorization_def HOST_def Userinfo_String_def escape_def escape_byte_def
      shouldEscape_def is_alnum_def upperhex_def EncodeToString_def encodeStd_def New_def)

subsection \<open>C2: the status code\<close>

text \<open>
  C2, as amended. Whenever \<^verbatim>\<open>Push\<close> has handed a request to the transport and a
  response came back, \<^verbatim>\<open>Push\<close> succeeds if and only if the status code is exactly 200,
  and on every other status code (other 2xx codes included) it returns an error that
  carries the HTTP status text. \<^verbatim>\<open>Devices\<close> returns the same error on every status code
  other than 200, and succeeds if and only if the status code is 200 and the body
  decodes without an error.
\<close>

theorem C2_status_ok_only:
  "(Push c deviceId data log = (out, data', log @ [req]) \<and> Client c req = Inr resp \<longrightarrow>
      out = Return (if StatusCode resp = 200 then None
                    else Some (ErrorString (Status resp))))
   \<and> (Devices Decode c log = (dout, log @ [dreq]) \<and> Client c dreq = Inr dresp \<longrightarrow>
        (StatusCode dresp \<noteq> 200 \<longrightarrow> dout = Return ([], Some (ErrorString (Status dresp))))
        \<and> ((\<exists>ds. dout = Return (ds, None))
             \<longleftrightarrow> StatusCode dresp = 200 \<and> snd (Decode (RespBody dresp)) = None))"
proof (intro conjI impI)
  assume a: "Push c deviceId data log = (out, data', log @ [req]) \<and> Client c req = Inr resp"
  show "out = Return (if StatusCode resp = 200 then None else Some (ErrorString (Status resp)))"
  proof (cases data)
    case None
    show ?thesis
    proof (cases "deviceId = 0")
      case True
      with a None show ?thesis
        by (auto simp: Push_None_all status_error_def StatusOK_def)
    next
      case False
      with a None show ?thesis
        by (simp add: Push_None_device)
    qed
  next
    case (Some m)
    with a show ?thesis
      by (auto simp: Push_Some Let_def status_error_def StatusOK_def)
  qed
next
  assume a: "Devices Decode c log = (dout, log @ [dreq]) \<and> Client c dreq = Inr dresp"
  assume "StatusCode dresp \<noteq> 200"
  with a show "dout = Return ([], Some (ErrorString (Status dresp)))"
    by (auto simp: Devices_eq Let_def StatusOK_def)
next
  assume a: "Devices Decode c log = (dout, log @ [dreq]) \<and> Client c dreq = Inr dresp"
  then show "(\<exists>ds. dout = Return (ds, None))
      \<longleftrightarrow> StatusCode dresp = 200 \<and> snd (Decode (RespBody dresp)) = None"
    by (cases "Decode (RespBody dresp)")
      (auto simp: Devices_eq Let_def StatusOK_def split: option.splits if_splits)
qed

text \<open>The amended C2 at a transport that answers \<^verbatim>\<open>404 Not Found\<close>.\<close>

theorem C2_status_ok_only_witness:
  "fst (Push (New ''k'' (respond 404 ''404 Not Found'' [])) 5 (Some []) [])
     = Return (Some (ErrorString ''404 Not Found''))
   \<and> fst (Devices sample_Decode (New ''k'' (respond 404 ''404 Not Found'' [])) [])
     = Return ([], Some (ErrorString ''404 Not Found''))"
proof -
  let ?c = "New ''k'' (respond 404 ''404 Not Found'' [])"
  let ?resp = "\<lparr>StatusCode = 404, Status = ''404 Not Found'', RespBody = []\<rparr>"
  obtain out data' req where p: "Push ?c 5 (Some []) [] = (out, data', [] @ [req])"
    by (simp add: Push_Some Let_def)
  have r: "Client ?c req = Inr ?resp"
    by (simp add: New_def respond_def)
  obtain dout dreq where d: "Devices sample_Decode ?c [] = (dout, [] @ [dreq])"
    by (simp add: Devices_eq Let_def)
  have dr: "Client ?c dreq = Inr ?resp"
    by (simp add: New_def respond_def)
  from C2_status_ok_only [where c = ?c and deviceId = 5 and data = "Some []" and log = "[]"
      and out = out and data' = data' and req = req and resp = ?resp and Decode = sample_Decode
      and dout = dout and dreq = dreq and dresp = ?resp] p r d dr
  show ?thesis by simp
qed

text \<open>
  C2 as stated fails: on the success status \<^verbatim>\<open>201 Created\<close> \<^verbatim>\<open>Push\<close> returns an error,
  and on \<^verbatim>\<open>200 OK\<close> with a body that does not decode \<^verbatim>\<open>Devices\<close> returns an error.
\<close>

theorem C2_counterexample:
  "fst (Push (New ''k'' (respond 201 ''201 Created'' [])) 5 (Some []) [])
     = Return (Some (ErrorString ''201 Created''))
   \<and> fst (Devices sample_Decode (New ''k'' (respond 200 ''200 OK'' ''<html>'')) [])
     = Return ([], Some (DecodeError ''invalid character''))"
  by (simp add: Push_Some Devices_eq Let_def status_error_def StatusOK_def New_def respond_def
      sample_Decode_def)

subsection \<open>C3: the \<^verbatim>\<open>device_id\<close> field\<close>

text \<open>
  C3, as amended. For every non-nil payload and every deviceId, \<^verbatim>\<open>Push\<close> sends one
  request whose body decodes, and among the decoded pairs those with the key
  \<^verbatim>\<open>device_id\<close> are: exactly the one pair \<^verbatim>\<open>device_id\<close> = decimal string of deviceId when
  deviceId is nonzero (whatever the payload held under that key); exactly the pairs the
  caller's payload held under that key when deviceId is the sentinel 0, so none when the
  payload has no \<^verbatim>\<open>device_id\<close> entry.
\<close>

theorem C3_device_id_field:
  "\<exists>out m' req body ps.
      Push c deviceId (Some m) log = (out, Some m', log @ [req])
      \<and> Body req = Some body \<and> ParseQuery body = Some ps
      \<and> filter (\<lambda>p. fst p = ''device_id'') ps
          = (if deviceId = 0 then map (Pair ''device_id'') (index m ''device_id'')
             else [(''device_id'', Itoa deviceId)])"
  by (simp add: Push_Some Let_def POST_request_def ParseQuery_Encode filter_sorted_pairs
      index_update)

text \<open>
  The amended C3 at deviceId 42 and a note payload that already names device 7.
\<close>

theorem C3_device_id_field_witness:
  "\<exists>out m' req ps.
      Push (New ''k'' refuse) 42 (Some [(''type'', [''note'']), (''device_id'', [''7''])]) []
        = (out, Some m', [req])
      \<and> Body req = Some ''device_id=42&type=note''
      \<and> ParseQuery ''device_id=42&type=note'' = Some ps
      \<and> filter (\<lambda>p. fst p = ''device_id'') ps = [(''device_id'', ''42'')]"
proof -
  let ?m = "[(''type'', [''note'']), (''device_id'', [''7''])]"
  have i: "Itoa 42 = ''42''"
    by (simp add: Itoa_def formatNat.simps digit_char_def digits_def)
  have b: "Encode (Some (AList.update ''device_id'' [''42''] ?m)) = ''device_id=42&type=note''"
    by (simp add: Encode_def sorted_pairs_def keys_def index_def encode_pair_def QueryEscape_def
        escape_def escape_byte_def shouldEscape_def is_alnum_def)
  from C3_device_id_field [of "New ''k'' refuse" 42 ?m "[]"] i b
  show ?thesis by (simp add: Push_Some Let_def POST_request_def)
qed

text \<open>
  C3 as stated fails: with the sentinel 0 and a payload that has a \<^verbatim>\<open>device_id\<close> entry
  the body sent is \<^verbatim>\<open>device_id=7\<close>; with a nil payload and a nonzero deviceId no body is
  produced, \<^verbatim>\<open>Push\<close> panics.
\<close>

theorem C3_counterexample:
  "map Body (snd (snd (Push (New ''k'' refuse) 0 (Some [(''device_id'', [''7''])]) [])))
     = [Some ''device_id=7'']
   \<and> Push (New ''k'' refuse) 42 None [] = (Panic NilMapAssignment, None, [])"
  by (simp add: Push_Some Push_None_device Let_def POST_request_def Encode_def sorted_pairs_def
      keys_def index_def encode_pair_def QueryEscape_def escape_def escape_byte_def
      shouldEscape_def is_alnum_def)

subsection \<open>C4: the device list\<close>

text \<open>
  C4. Whenever \<^verbatim>\<open>Devices\<close> has sent its request, the response has status 200 and the
  body decodes, without error, to the lists \<^verbatim>\<open>devices\<close> and \<^verbatim>\<open>shared_devices\<close>,
  \<^verbatim>\<open>Devices\<close> returns the owned devices followed by the shared devices, each in the order
  decoded, and no error. Nothing is removed: the result is as long as both lists together
  and holds each device as many times as the two lists do; it is empty exactly when both
  lists are.
\<close>

theorem C4_devices_concatenation:
  assumes "Devices Decode c log = (out, log @ [req])"
    and "Client c req = Inr resp"
    and "StatusCode resp = StatusOK"
    and "Decode (RespBody resp) = (devResp, None)"
  shows "\<exists>ds. out = Return (ds, None)
           \<and> ds = Devices_field devResp @ SharedDevices devResp
           \<and> length ds = length (Devices_field devResp) + length (SharedDevices devResp)
           \<and> (\<forall>d. count_list ds d
                  = count_list (Devices_field devResp) d + count_list (SharedDevices devResp) d)
           \<and> (ds = [] \<longleftrightarrow> Devices_field devResp = [] \<and> SharedDevices devResp = [])"
  using assms by (auto simp: Devices_eq Let_def)

text \<open>
  C4 at the two bodies of the specification: one owned and one shared device, and two
  empty lists.
\<close>

theorem C4_devices_concatenation_witness:
  "fst (Devices sample_Decode
          (New ''k'' (respond 200 ''200 OK'' ''{\"devices\":[{\"id\":1}],\"shared_devices\":[{\"id\":2}]}'')) [])
     = Return ([Some (device_with_id 1), Some (device_with_id 2)], None)
   \<and> fst (Devices sample_Decode
          (New ''k'' (respond 200 ''200 OK'' ''{\"devices\":[],\"shared_devices\":[]}'')) [])
     = Return ([], None)"
proof -
  let ?b1 = "''{\"devices\":[{\"id\":1}],\"shared_devices\":[{\"id\":2}]}''"
  let ?b2 = "''{\"devices\":[],\"shared_devices\":[]}''"
  let ?c1 = "New ''k'' (respond 200 ''200 OK'' ?b1)"
  let ?c2 = "New ''k'' (respond 200 ''200 OK'' ?b2)"
  let ?r1 = "\<lparr>StatusCode = 200, Status = ''200 OK'', RespBody = ?b1\<rparr>"
  let ?r2 = "\<lparr>StatusCode = 200, Status = ''200 OK'', RespBody = ?b2\<rparr>"
  let ?d1 = "\<lparr>Devices_field = [Some (device_with_id 1)], SharedDevices = [Some (device_with_id 2)]\<rparr>"
  let ?d2 = "\<lparr>Devices_field = [], SharedDevices = []\<rparr>"
  obtain o1 q1 where a1: "Devices sample_Decode ?c1 [] = (o1, [] @ [q1])"
    by (simp add: Devices_eq Let_def)
  obtain o2 q2 where a2: "Devices sample_Decode ?c2 [] = (o2, [] @ [q2])"
    by (simp add: Devices_eq Let_def)
  have t1: "Client ?c1 q1 = Inr ?r1" and t2: "Client ?c2 q2 = Inr ?r2"
    by (simp_all add: New_def respond_def)
  have s1: "StatusCode ?r1 = StatusOK" and s2: "StatusCode ?r2 = StatusOK"
    by (simp_all add: StatusOK_def)
  have e1: "sample_Decode (RespBody ?r1) = (?d1, None)"
    and e2: "sample_Decode (RespBody ?r2) = (?d2, None)"
    by (simp_all add: sample_Decode_def)
  from C4_devices_concatenation [OF a1 t1 s1 e1] C4_devices_concatenation [OF a2 t2 s2 e2] a1 a2
  show ?thesis by simp
qed

subsection \<open>C5: method, content type and body\<close>

text \<open>
  C5. \<^verbatim>\<open>buildRequest\<close> is unexported and is called with the endpoints \<^verbatim>\<open>/devices\<close> and
  \<^verbatim>\<open>/pushes\<close> only. For both, for every client: with absent form data it returns a GET
  request to \<^verbatim>\<open>HOST + endpoint\<close> without a body; with any non-nil form data it returns a
  POST request to the same URL with \<^verbatim>\<open>Content-Type: application/x-www-form-urlencoded\<close>
  whose body decodes, without error, to the same multiset of key/value pairs as the form
  data holds.
\<close>

theorem C5_method_and_body:
  assumes "endpoint = ''/devices'' \<or> endpoint = ''/pushes''"
  shows "(\<exists>r. buildRequest c endpoint None = Return r
            \<and> Method r = ''GET'' \<and> URL r = HOST @ endpoint \<and> Body r = None)
       \<and> (\<exists>r body ps. buildRequest c endpoint (Some m) = Return r
            \<and> Method r = ''POST'' \<and> URL r = HOST @ endpoint
            \<and> Header_Get ''Content-Type'' r = ''application/x-www-form-urlencoded''
            \<and> Body r = Some body \<and> ParseQuery body = Some ps
            \<and> mset ps = mset (form_pairs m))"
proof
  from assms have ok: "url_Parse (HOST @ endpoint) = Some (HOST @ endpoint)"
    using url_Parse_endpoints by blast
  show "\<exists>r. buildRequest c endpoint None = Return r
          \<and> Method r = ''GET'' \<and> URL r = HOST @ endpoint \<and> Body r = None"
    by (simp add: buildRequest_Return(1) [OF ok] GET_request_def)
  have "Body (POST_request c endpoint m) = Some (Encode (Some m))"
    and "Method (POST_request c endpoint m) = ''POST''"
    and "URL (POST_request c endpoint m) = HOST @ endpoint"
    by (simp_all add: POST_request_def)
  then show "\<exists>r body ps. buildRequest c endpoint (Some m) = Return r
          \<and> Method r = ''POST'' \<and> URL r = HOST @ endpoint
          \<and> Header_Get ''Content-Type'' r = ''application/x-www-form-urlencoded''
          \<and> Body r = Some body \<and> ParseQuery body = Some ps
          \<and> mset ps = mset (form_pairs m)"
    by (simp add: buildRequest_Return(2) [OF ok] Header_Get_requests ParseQuery_Encode
        mset_sorted_pairs)
qed

text \<open>
  C5 at the endpoint \<^verbatim>\<open>/devices\<close> and a form with a repeated key, a space and an
  ampersand.
\<close>

theorem C5_method_and_body_witness:
  "(\<exists>r. buildRequest (New ''k'' refuse) ''/devices'' None = Return r
        \<and> Method r = ''GET'' \<and> URL r = ''https://api.pushbullet.com/api/devices''
        \<and> Body r = None)
   \<and> (\<exists>r ps. buildRequest (New ''k'' refuse) ''/devices''
                 (Some [(''b'', [''x y'', ''&'']), (''a'', [''1''])]) = Return r
        \<and> Method r = ''POST''
        \<and> Header_Get ''Content-Type'' r = ''application/x-www-form-urlencoded''
        \<and> Body r = Some ''a=1&b=x+y&b=%26''
        \<and> ParseQuery ''a=1&b=x+y&b=%26'' = Some ps
        \<and> mset ps = {#(''b'', ''x y''), (''b'', ''&''), (''a'', ''1'')#})"
proof -
  let ?m = "[(''b'', [''x y'', ''&'']), (''a'', [''1''])]"
  have e: "Encode (Some ?m) = ''a=1&b=x+y&b=%26''"
    by (simp add: Encode_def sorted_pairs_def keys_def index_def encode_pair_def QueryEscape_def
        escape_def escape_byte_def shouldEscape_def is_alnum_def upperhex_def)
  have f: "form_pairs ?m = [(''b'', ''x y''), (''b'', ''&''), (''a'', ''1'')]"
    by (simp add: form_pairs_def keys_def index_def)
  have h: "HOST @ ''/devices'' = ''https://api.pushbullet.com/api/devices''"
    by (simp add: HOST_def)
  have d: "''/devices'' = ''/devices'' \<or> ''/devices'' = ''/pushes''"
    by simp
  from C5_method_and_body [OF d, of "New ''k'' refuse" ?m]
  show ?thesis
    by (simp add: buildRequest_Return [OF url_Parse_endpoints(1)] POST_request_def e f h)
qed

subsection \<open>C6: the body of a list push\<close>

text \<open>
  C6. For every deviceId, title and list of items, \<^verbatim>\<open>PushList\<close> sends one POST request
  to the pushes endpoint whose body is the encoding of these pairs, in this order: for a
  nonzero deviceId the pair \<^verbatim>\<open>device_id\<close>, then one \<^verbatim>\<open>items\<close> pair per element in the
  order of the list, then \<^verbatim>\<open>title\<close>, then \<^verbatim>\<open>type=list\<close>; and the body decodes back to
  exactly these pairs.
\<close>

theorem C6_PushList_body:
  "\<exists>out r ps.
      PushList c deviceId title items log = (out, log @ [r])
      \<and> Method r = ''POST'' \<and> URL r = HOST @ ''/pushes''
      \<and> ps = (if deviceId = 0 then [] else [(''device_id'', Itoa deviceId)])
               @ map (Pair ''items'') items @ [(''title'', title), (''type'', ''list'')]
      \<and> Body r = Some (join_amp (map encode_pair ps))
      \<and> ParseQuery (join_amp (map encode_pair ps)) = Some ps"
proof -
  let ?data = "[(''type'', [''list'']), (''title'', [title]), (''items'', items)]"
  let ?m = "if deviceId \<noteq> 0 then AList.update ''device_id'' [Itoa deviceId] ?data else ?data"
  let ?ps = "(if deviceId = 0 then [] else [(''device_id'', Itoa deviceId)])
               @ map (Pair ''items'') items @ [(''title'', title), (''type'', ''list'')]"
  have run: "PushList c deviceId title items log
      = (Return (status_error (Client c (POST_request c ''/pushes'' ?m))),
         log @ [POST_request c ''/pushes'' ?m])"
    unfolding PushList_def drop_data_def Push_Some Let_def by simp
  have "sorted_pairs ?m = ?ps"
    using sorted_pairs_list [of title items] sorted_pairs_list_device [of "Itoa deviceId" title items]
    by (cases "deviceId = 0") simp_all
  then have body: "Body (POST_request c ''/pushes'' ?m) = Some (join_amp (map encode_pair ?ps))"
    unfolding POST_request_def Encode_def by simp
  have "Method (POST_request c ''/pushes'' ?m) = ''POST''"
    and "URL (POST_request c ''/pushes'' ?m) = HOST @ ''/pushes''"
    by (simp_all add: POST_request_def)
  with run body ParseQuery_join [of ?ps] show ?thesis
    by blast
qed

text \<open>C6 at the example of the specification: device 5, groceries, milk and eggs.\<close>

theorem C6_PushList_body_witness:
  "\<exists>out r.
      PushList (New ''k'' refuse) 5 ''groceries'' [''milk'', ''eggs''] [] = (out, [r])
      \<and> Method r = ''POST'' \<and> URL r = ''https://api.pushbullet.com/api/pushes''
      \<and> Body r = Some ''device_id=5&items=milk&items=eggs&title=groceries&type=list''
      \<and> ParseQuery ''device_id=5&items=milk&items=eggs&title=groceries&type=list''
          = Some [(''device_id'', ''5''), (''items'', ''milk''), (''items'', ''eggs''),
                  (''title'', ''groceries''), (''type'', ''list'')]"
proof -
  let ?ps = "[(''device_id'', ''5''), (''items'', ''milk''), (''items'', ''eggs''),
              (''title'', ''groceries''), (''type'', ''list'')]"
  let ?body = "''device_id=5&items=milk&items=eggs&title=groceries&type=list''"
  from C6_PushList_body [of "New ''k'' refuse" 5 "''groceries''" "[''milk'', ''eggs'']" "[]"]
  obtain out r ps where run: "PushList (New ''k'' refuse) 5 ''groceries'' [''milk'', ''eggs''] []
        = (out, [] @ [r])"
    and req: "Method r = ''POST''" "URL r = HOST @ ''/pushes''"
    and ps: "ps = (if (5::int) = 0 then [] else [(''device_id'', Itoa 5)])
               @ map (Pair ''items'') [''milk'', ''eggs'']
               @ [(''title'', ''groceries''), (''type'', ''list'')]"
    and body: "Body r = Some (join_amp (map encode_pair ps))"
    and dec: "ParseQuery (join_amp (map encode_pair ps)) = Some ps"
    by blast
  have i: "Itoa 5 = ''5''"
    by (simp add: Itoa_def formatNat.simps digit_char_def digits_def)
  have ps': "ps = ?ps"
    unfolding ps i by simp
  have e: "join_amp (map encode_pair ?ps) = ?body"
    by (simp add: encode_pair_def QueryEscape_def escape_def escape_byte_def shouldEscape_def
        is_alnum_def)
  have h: "HOST @ ''/pushes'' = ''https://api.pushbullet.com/api/pushes''"
    by (simp add: HOST_def)
  from run req body dec show ?thesis
    unfolding ps' e h by simp
qed

subsection \<open>C7: the variants that push to all devices\<close>

text \<open>
  C7. For all arguments, every transport and every log of requests sent before, each
  \<^verbatim>\<open>ToAll\<close> variant returns the same error and leaves the same log of requests (so it
  sends the same method, URL, headers and body) as the targeted variant called with the
  sentinel device id 0.
\<close>

theorem C7_to_all_variants:
  "PushNoteToAll c title body log = PushNote c 0 title body log
   \<and> PushAddressToAll c name address log = PushAddress c 0 name address log
   \<and> PushListToAll c title items log = PushList c 0 title items log
   \<and> PushLinkToAll c title u log = PushLink c 0 title u log
   \<and> PushToAll c data log = Push c 0 data log"
  by (simp add: PushNoteToAll_def PushAddressToAll_def PushListToAll_def PushLinkToAll_def
      PushToAll_def allDevicesId_def)

text \<open>C7 at the example of the specification, \<^verbatim>\<open>PushNoteToAll("T", "B")\<close>.\<close>

theorem C7_to_all_variants_witness:
  "PushNoteToAll (New ''k'' (respond 200 ''200 OK'' [])) ''T'' ''B'' []
     = (Return None,
        [\<lparr>Method = ''POST'', URL = ''https://api.pushbullet.com/api/pushes'',
          Header = [(''Authorization'', [''Basic azo='']),
                    (''Content-Type'', [''application/x-www-form-urlencoded''])],
          Body = Some ''body=B&title=T&type=note''\<rparr>])
   \<and> PushNote (New ''k'' (respond 200 ''200 OK'' [])) 0 ''T'' ''B'' []
     = PushNoteToAll (New ''k'' (respond 200 ''200 OK'' [])) ''T'' ''B'' []"
proof -
  let ?c = "New ''k'' (respond 200 ''200 OK'' [])"
  have "PushNote ?c 0 ''T'' ''B'' []
     = (Return None,
        [\<lparr>Method = ''POST'', URL = ''https://api.pushbullet.com/api/pushes'',
          Header = [(''Authorization'', [''Basic azo='']),
                    (''Content-Type'', [''application/x-www-form-urlencoded''])],
          Body = Some ''body=B&title=T&type=note''\<rparr>])"
    by (simp add: PushNote_def drop_data_def Push_Some Let_def POST_request_def Encode_def
        sorted_pairs_def keys_def index_def encode_pair_def QueryEscape_def escape_def
        escape_byte_def shouldEscape_def is_alnum_def authorization_def Userinfo_String_def
        EncodeToString_def encodeStd_def New_def respond_def status_error_def StatusOK_def
        HOST_def)
  with C7_to_all_variants [of ?c "''T''" "''B''" "[]"]
  show ?thesis by simp
qed

subsection \<open>C8: no partial device list\<close>

text \<open>
  C8. Whenever \<^verbatim>\<open>Devices\<close> returns an error, the device list it returns with it is
  empty, also when the decoder had filled part of the response before it failed.
\<close>

theorem C8_no_partial_result:
  "Devices Decode c log = (Return (ds, Some err), log') \<Longrightarrow> ds = []"
  by (auto simp: Devices_eq Let_def split: sum.splits if_splits prod.splits option.splits)

text \<open>
  C8 at a transport failure, at the status \<^verbatim>\<open>401 Unauthorized\<close>, and at a body that does
  not decode.
\<close>

theorem C8_no_partial_result_witness:
  "fst (Devices sample_Decode (New ''k'' refuse) [])
     = Return ([], Some (TransportError ''connection refused''))
   \<and> fst (Devices sample_Decode (New ''k'' (respond 401 ''401 Unauthorized'' [])) [])
     = Return ([], Some (ErrorString ''401 Unauthorized''))
   \<and> fst (Devices sample_Decode (New ''k'' (respond 200 ''200 OK'' ''<html>'')) [])
     = Return ([], Some (DecodeError ''invalid character''))"
proof -
  let ?c1 = "New ''k'' refuse"
  let ?c2 = "New ''k'' (respond 401 ''401 Unauthorized'' [])"
  let ?c3 = "New ''k'' (respond 200 ''200 OK'' ''<html>'')"
  obtain d1 l1 where r1:
    "Devices sample_Decode ?c1 [] = (Return (d1, Some (TransportError ''connection refused'')), l1)"
    by (simp add: Devices_eq Let_def New_def refuse_def)
  obtain d2 l2 where r2:
    "Devices sample_Decode ?c2 [] = (Return (d2, Some (ErrorString ''401 Unauthorized'')), l2)"
    by (simp add: Devices_eq Let_def New_def respond_def StatusOK_def)
  obtain d3 l3 where r3:
    "Devices sample_Decode ?c3 [] = (Return (d3, Some (DecodeError ''invalid character'')), l3)"
    by (simp add: Devices_eq Let_def New_def respond_def StatusOK_def sample_Decode_def)
  from C8_no_partial_result [OF r1] C8_no_partial_result [OF r2] C8_no_partial_result [OF r3]
    r1 r2 r3
  show ?thesis by simp
qed

subsection \<open>C9: the caller's payload after a push\<close>

text \<open>
  C9. For every nonzero deviceId and every payload map, \<^verbatim>\<open>Push\<close> returns, and the map
  as the caller finds it afterwards holds exactly the decimal string of deviceId under
  \<^verbatim>\<open>device_id\<close> and is unchanged under every other key. A later \<^verbatim>\<open>Push\<close> of that same map
  with the sentinel 0 leaves the map as it is and sends a body whose only \<^verbatim>\<open>device_id\<close>
  pair names the earlier device.
\<close>

theorem C9_payload_mutated:
  "deviceId \<noteq> 0 \<Longrightarrow>
   \<exists>out m' req.
      Push c deviceId (Some m) log = (out, Some m', log @ [req])
      \<and> index m' ''device_id'' = [Itoa deviceId]
      \<and> (\<forall>k. k \<noteq> ''device_id'' \<longrightarrow> index m' k = index m k)
      \<and> (\<exists>out2 m2 req2 body ps.
            Push c 0 (Some m') log2 = (out2, Some m2, log2 @ [req2])
            \<and> m2 = m'
            \<and> Body req2 = Some body \<and> ParseQuery body = Some ps
            \<and> filter (\<lambda>p. fst p = ''device_id'') ps = [(''device_id'', Itoa deviceId)])"
  by (simp add: Push_Some Let_def POST_request_def ParseQuery_Encode filter_sorted_pairs
      index_update)

text \<open>C9 at device 5 and a note payload.\<close>

theorem C9_payload_mutated_witness:
  "\<exists>out m' req.
      Push (New ''k'' refuse) 5 (Some [(''type'', [''note''])]) [] = (out, Some m', [] @ [req])
      \<and> index m' ''device_id'' = [''5'']
      \<and> (\<forall>k. k \<noteq> ''device_id'' \<longrightarrow> index m' k = index [(''type'', [''note''])] k)
      \<and> (\<exists>out2 m2 req2 body ps.
            Push (New ''k'' refuse) 0 (Some m') [] = (out2, Some m2, [] @ [req2])
            \<and> m2 = m'
            \<and> Body req2 = Some body \<and> ParseQuery body = Some ps
            \<and> filter (\<lambda>p. fst p = ''device_id'') ps = [(''device_id'', ''5'')])"
proof -
  have i: "Itoa 5 = ''5''"
    by (simp add: Itoa_def formatNat.simps digit_char_def digits_def)
  have n: "(5::int) \<noteq> 0" by simp
  show ?thesis
    using C9_payload_mutated [OF n, of "New ''k'' refuse" "[(''type'', [''note''])]" "[]" "[]"]
    unfolding i .
qed

subsection \<open>C10: the nil payload\<close>

text \<open>
  C10. With a nil payload and a nonzero deviceId \<^verbatim>\<open>Push\<close> panics on the assignment into
  the nil map, and the log of requests is unchanged: nothing has been sent. With a nil
  payload and the sentinel 0 \<^verbatim>\<open>Push\<close> returns after sending one request to the pushes
  endpoint, whose method is GET and which has neither a body nor a \<^verbatim>\<open>Content-Type\<close>
  header.
\<close>

theorem C10_nil_payload:
  "(deviceId \<noteq> 0 \<longrightarrow> Push c deviceId None log = (Panic NilMapAssignment, None, log))
   \<and> (\<exists>out req.
         Push c 0 None log = (Return out, None, log @ [req])
         \<and> Method req = ''GET'' \<and> URL req = HOST @ ''/pushes'' \<and> Body req = None
         \<and> map_of (Header req) ''Content-Type'' = None)"
  by (simp add: Push_None_device Push_None_all GET_request_def)

text \<open>C10 at device 7 and at the sentinel.\<close>

theorem C10_nil_payload_witness:
  "Push (New ''k'' refuse) 7 None [] = (Panic NilMapAssignment, None, [])
   \<and> (\<exists>out req.
         Push (New ''k'' refuse) 0 None [] = (Return out, None, [] @ [req])
         \<and> Method req = ''GET'' \<and> URL req = HOST @ ''/pushes'' \<and> Body req = None
         \<and> map_of (Header req) ''Content-Type'' = None)"
  using C10_nil_payload [of 7 "New ''k'' refuse" "[]"] by simp

end
